theory Spec2Isabelle
  imports Main "HOL-Library.Word"
begin

section \<open>Z-stack projection: data model\<close>

text \<open>
  The development embeds the class \<open>ImageProjector\<close> of
  \<^verbatim>\<open>automatic-z-projections/z-projection_v2.py\<close>.

  Intensities are unsigned 16-bit values (\<open>np.uint16\<close>), so \<open>+\<close> on them wraps
  around modulo \<open>2 ^ 16\<close>. A plane is a list of rows (axes Y, X), a volume a list of
  planes (axis Z), and an acquisition carries its \<open>shape\<close> tuple beside the list of its
  volumes (axis T). Python integers (slice indices, the configured \<open>z_range\<close>) are
  unbounded and are modelled as \<open>int\<close>; so is the index that \<open>argmax\<close> returns, a
  64-bit integer that stays below the number of slices.
\<close>

type_synonym u16 = "16 word"
type_synonym plane = "u16 list list"
type_synonym volume = "plane list"

record ndarray4 =
  shape :: "nat list"
  frames :: "volume list"

text \<open>
  The nested lists hold the data of a four-dimensional array. An array with fewer axes
  is given by its shape alone, which is all that the dimension check of
  \<open>process_tiff_file\<close> reads; arrays with more than four axes are outside the model.
\<close>

text \<open>
  The dictionary stored in \<open>self.report_data[file_path.stem]\<close>: five parallel columns,
  one entry per timepoint.
\<close>

record report =
  Timepoint :: "int list"
  Numb_projected_z :: "int list"
  Type_of_proj :: "string list"
  Start_z :: "int list"
  Stop_z :: "int list"

text \<open>The attributes set by \<open>ImageProjector.__init__\<close>.\<close>

record image_projector =
  folder :: string
  channels :: "string list"
  projection_type :: string
  z_range :: int
  output_dir :: string
  report_data :: "string \<rightharpoonup> report"
  processed_count :: nat

text \<open>
  \<open>__init__\<close>: a missing or empty \<open>output_dir\<close> is replaced by the sub-folder
  \<open>projection\<close> of the input folder; the report is empty and no file has been
  processed. Creating the output directory is left out.
\<close>

definition init_projector ::
  "string \<Rightarrow> string list \<Rightarrow> string \<Rightarrow> int \<Rightarrow> string option \<Rightarrow> image_projector" where
  "init_projector fld chs ptype zr out =
     \<lparr> folder = fld, channels = chs, projection_type = ptype, z_range = zr,
       output_dir =
         (case out of
            Some d \<Rightarrow> if d = [] then fld @ ''/projection'' else d
          | None \<Rightarrow> fld @ ''/projection''),
       report_data = Map.empty, processed_count = 0 \<rparr>"

text \<open>
  The projector built by \<open>main()\<close>: channel \<open>WL508\<close>, maximum projection, one slice
  above and below the best-focused one.
\<close>

definition main_projector :: image_projector where
  "main_projector =
     init_projector ''/Users/csalatca/Desktop/temporary_microscopyfiles/test_projections/test''
       [''WL508''] ''max'' 1 None"

text \<open>The same configuration with another \<open>projection_type\<close> and \<open>z_range\<close>.\<close>

definition projector_with :: "string \<Rightarrow> int \<Rightarrow> image_projector" where
  "projector_with ptype zr = main_projector\<lparr>projection_type := ptype, z_range := zr\<rparr>"

section \<open>Range selection\<close>

text \<open>
  \<open>calculate_projection_range(self, best_z, total_z)\<close>: the symmetric window around
  \<open>best_z\<close>, moved back inside \<open>[0, total_z)\<close> by the \<open>if\<close>/\<open>elif\<close> of the source,
  whose order is kept. The third component is the requested number of slices.
\<close>

definition calculate_projection_range ::
  "image_projector \<Rightarrow> int \<Rightarrow> int \<Rightarrow> int \<times> int \<times> int" where
  "calculate_projection_range self best_z total_z =
     (let start = best_z - z_range self;
          stop = best_z + z_range self + 1;
          n_slices = 2 * z_range self + 1
      in if start < 0 then (0, min n_slices total_z, n_slices)
         else if stop > total_z then (max 0 (total_z - n_slices), total_z, n_slices)
         else (start, stop, n_slices))"

section \<open>Errors and array primitives\<close>

text \<open>
  The exceptions that can arise inside the \<open>try\<close> block of \<open>process_tiff_file\<close>, with
  their messages. The \<open>ValueError\<close> of \<open>perform_projection\<close> is what the specification
  calls UnsupportedOperation.
\<close>

datatype error = ValueError string | IndexError string

text \<open>Sequencing: an exception of the first computation skips the rest.\<close>

definition and_then :: "error + 'a \<Rightarrow> ('a \<Rightarrow> error + 'b) \<Rightarrow> error + 'b" where
  "and_then r f = (case r of Inl e \<Rightarrow> Inl e | Inr v \<Rightarrow> f v)"

text \<open>
  \<open>range(start, stop)\<close>, and the two reads \<open>indices[0]\<close> and \<open>indices[-1]\<close> of the
  source, which raise on an empty range.
\<close>

definition py_range :: "int \<Rightarrow> int \<Rightarrow> int list" where
  "py_range start stop = [start..stop - 1]"

definition range_first :: "int list \<Rightarrow> error + int" where
  "range_first indices =
     (case indices of
        [] \<Rightarrow> Inl (IndexError ''range object index out of range'')
      | i # _ \<Rightarrow> Inr i)"

definition range_last :: "int list \<Rightarrow> error + int" where
  "range_last indices =
     (if indices = [] then Inl (IndexError ''range object index out of range'')
      else Inr (last indices))"

text \<open>
  \<open>ndarray.take\<close> along axis 0 (default mode \<open>raise\<close>): an index \<open>i\<close> with
  \<open>-n \<le> i < 0\<close> counts from the end, any index outside \<open>[-n, n)\<close> raises.
\<close>

definition take_one :: "'a list \<Rightarrow> int \<Rightarrow> error + 'a" where
  "take_one xs i =
     (let n = int (length xs)
      in if 0 \<le> i \<and> i < n then Inr (xs ! nat i)
         else if - n \<le> i \<and> i < 0 then Inr (xs ! nat (n + i))
         else Inl (IndexError ''index out of range''))"

fun take_many :: "'a list \<Rightarrow> int list \<Rightarrow> error + 'a list" where
  "take_many xs [] = Inr []"
| "take_many xs (i # is) =
     (case take_one xs i of
        Inl e \<Rightarrow> Inl e
      | Inr v \<Rightarrow> (case take_many xs is of Inl e \<Rightarrow> Inl e | Inr vs \<Rightarrow> Inr (v # vs)))"

text \<open>
  \<open>ndarray.argmax\<close> on a one-dimensional array: a scan that replaces the running
  best only by a strictly greater value, and a \<open>ValueError\<close> on an empty array.
\<close>

fun argmax_loop :: "'s::linorder list \<Rightarrow> nat \<Rightarrow> nat \<Rightarrow> 's \<Rightarrow> nat" where
  "argmax_loop [] i best_i best = best_i"
| "argmax_loop (x # xs) i best_i best =
     (if best < x then argmax_loop xs (Suc i) i x
      else argmax_loop xs (Suc i) best_i best)"

definition argmax :: "'s::linorder list \<Rightarrow> error + nat" where
  "argmax xs =
     (case xs of
        [] \<Rightarrow> Inl (ValueError ''attempt to get argmax of an empty sequence'')
      | x # rest \<Rightarrow> Inr (argmax_loop rest 1 0 x))"

section \<open>Focus scoring\<close>

text \<open>
  \<open>get_focused_z_slice(self, image)\<close>; the argument is named \<open>image_zyx\<close> here,
  after its axes. The standard deviation of a plane is computed
  by numpy in floating point; it enters the model as the parameter \<open>std\<close>, a function
  from the intensities of one plane (in row-major order) to a linearly ordered type
  of scores. The scores of planes with at least one pixel are finite floats, which are
  linearly ordered.
\<close>

definition get_focused_z_slice ::
  "(u16 list \<Rightarrow> 's::linorder) \<Rightarrow> volume \<Rightarrow> error + ('s list \<times> nat)" where
  "get_focused_z_slice std image_zyx =
     (let std_devs = map (\<lambda>p. std (concat p)) image_zyx
      in case argmax std_devs of
           Inl e \<Rightarrow> Inl e
         | Inr best_z \<Rightarrow> Inr (std_devs, best_z))"

section \<open>Projection\<close>

text \<open>
  A reduction along axis 0 applies a function to the column of values that the
  slices of the stack hold at each pixel \<open>(y, x)\<close>; the result has the shape of one
  slice.
\<close>

definition pixel_column :: "plane list \<Rightarrow> nat \<Rightarrow> nat \<Rightarrow> u16 list" where
  "pixel_column image_stack y x = map (\<lambda>p. p ! y ! x) image_stack"

definition reduce_axis0 :: "(u16 list \<Rightarrow> u16) \<Rightarrow> plane list \<Rightarrow> plane" where
  "reduce_axis0 f image_stack =
     (case image_stack of
        [] \<Rightarrow> []
      | p # _ \<Rightarrow>
          map (\<lambda>y. map (\<lambda>x. f (pixel_column image_stack y x)) [0..<length (p ! y)])
            [0..<length p])"

text \<open>
  \<open>np.mean(..., dtype=np.uint16)\<close> on one column: numpy adds the values up in the
  requested type \<open>uint16\<close>, so the sum wraps around, then divides the sum by the
  number of slices and casts the quotient back to \<open>uint16\<close>, which drops its
  fractional part. The division is a floating-point one; for a dividend below
  \<open>2 ^ 16\<close> the integer part of its result is the integer quotient.
\<close>

definition mean_u16 :: "u16 list \<Rightarrow> u16" where
  "mean_u16 col = of_nat (unat (sum_list col) div length col)"

text \<open>\<open>np.max\<close> on one column, in the unsigned order.\<close>

definition max_u16 :: "u16 list \<Rightarrow> u16" where
  "max_u16 col = (case col of [] \<Rightarrow> 0 | v # vs \<Rightarrow> fold max vs v)"

text \<open>
  \<open>perform_projection(self, image_stack)\<close>. \<open>np.max\<close> raises on a stack without
  slices. \<open>np.mean\<close> of such a stack is a plane of NaN cast to \<open>uint16\<close>; the list
  model keeps no shape for it and returns the empty plane. \<open>process_tiff_file\<close> passes
  no empty stack, since \<open>indices[0]\<close> has raised before.
\<close>

definition perform_projection :: "image_projector \<Rightarrow> plane list \<Rightarrow> error + plane" where
  "perform_projection self image_stack =
     (if projection_type self = ''mean'' then Inr (reduce_axis0 mean_u16 image_stack)
      else if projection_type self = ''max'' then
        (if image_stack = [] then
           Inl (ValueError
             ''zero-size array to reduction operation maximum which has no identity'')
         else Inr (reduce_axis0 max_u16 image_stack))
      else Inl (ValueError (''Unsupported projection type: '' @ projection_type self)))"

section \<open>Processing one file\<close>

text \<open>
  One iteration of the loop over the timepoints of \<open>process_tiff_file\<close>. The state is
  the stack of projected planes with the five report columns. The statements keep
  the order of the source, so the first exception raised is the one returned; an
  exception discards the local state.
\<close>

definition process_timepoint ::
  "(u16 list \<Rightarrow> 's::linorder) \<Rightarrow> image_projector \<Rightarrow> ndarray4 \<Rightarrow> nat
     \<Rightarrow> plane list \<times> report \<Rightarrow> error + (plane list \<times> report)" where
  "process_timepoint std self img t st =
     (case st of (img_proj_tp, rep) \<Rightarrow>
      and_then (take_one (frames img) (int t)) (\<lambda>img_tp.
      let rep = rep\<lparr>Timepoint := Timepoint rep @ [int t + 1]\<rparr>;
          rep = rep\<lparr>Type_of_proj := Type_of_proj rep @ [projection_type self]\<rparr>
      in and_then (get_focused_z_slice std img_tp) (\<lambda>(std_devs, best_z).
      (case calculate_projection_range self (int best_z) (int (shape img ! 1)) of
        (start, stop, n_slices) \<Rightarrow>
      let rep = rep\<lparr>Numb_projected_z := Numb_projected_z rep @ [n_slices]\<rparr>;
          indices = py_range start stop
      in and_then (range_first indices) (\<lambda>first.
      let rep = rep\<lparr>Start_z := Start_z rep @ [first + 1]\<rparr>
      in and_then (range_last indices) (\<lambda>lst.
      let rep = rep\<lparr>Stop_z := Stop_z rep @ [lst + 1]\<rparr>
      in and_then (take_many img_tp indices) (\<lambda>img_z_stack.
      and_then (perform_projection self img_z_stack) (\<lambda>img_proj.
      Inr (img_proj_tp @ [img_proj], rep)))))))))"

fun timepoint_loop ::
  "(u16 list \<Rightarrow> 's::linorder) \<Rightarrow> image_projector \<Rightarrow> ndarray4 \<Rightarrow> nat list
     \<Rightarrow> plane list \<times> report \<Rightarrow> error + (plane list \<times> report)" where
  "timepoint_loop std self img [] st = Inr st"
| "timepoint_loop std self img (t # ts) st =
     (case process_timepoint std self img t st of
        Inl e \<Rightarrow> Inl e
      | Inr st' \<Rightarrow> timepoint_loop std self img ts st')"

text \<open>
  The body of the \<open>try\<close> block after the dimension check: the output starts with the
  placeholder plane of \<open>np.empty\<close> (its content is arbitrary; zeros here), the loop runs
  over \<open>range(shape[0])\<close>, and the placeholder is dropped by \<open>img_proj_tp[1:]\<close>.
\<close>

definition empty_report :: report where
  "empty_report =
     \<lparr> Timepoint = [], Numb_projected_z = [], Type_of_proj = [], Start_z = [], Stop_z = [] \<rparr>"

definition process_timepoints ::
  "(u16 list \<Rightarrow> 's::linorder) \<Rightarrow> image_projector \<Rightarrow> ndarray4
     \<Rightarrow> error + (plane list \<times> report)" where
  "process_timepoints std self img =
     (let img_proj_tp = [replicate (shape img ! 2) (replicate (shape img ! 3) 0)]
      in case timepoint_loop std self img [0..<shape img ! 0] (img_proj_tp, empty_report) of
           Inl e \<Rightarrow> Inl e
         | Inr (img_proj_tp, rep) \<Rightarrow> Inr (tl img_proj_tp, rep))"

text \<open>
  \<open>process_tiff_file(self, file_path)\<close>, given the stem of the file name and the array
  that \<open>imread\<close> returned. The effects are the new attributes of \<open>self\<close> and the
  image files written by \<open>imsave\<close>, a map from paths to stacks. An array with fewer than
  four axes is skipped. Any exception of the body is caught: the file counts as
  processed, and neither the report nor an output file is written. The \<open>print\<close> calls
  are left out.
\<close>

definition process_tiff_file ::
  "(u16 list \<Rightarrow> 's::linorder) \<Rightarrow> image_projector \<Rightarrow> string \<Rightarrow> ndarray4
     \<Rightarrow> (string \<rightharpoonup> plane list) \<Rightarrow> image_projector \<times> (string \<rightharpoonup> plane list)" where
  "process_tiff_file std self stem img written =
     (if length (shape img) \<le> 3 then (self, written)
      else
        let self = self\<lparr>processed_count := processed_count self + 1\<rparr>
        in case process_timepoints std self img of
             Inl e \<Rightarrow> (self, written)
           | Inr (img_proj_tp, rep) \<Rightarrow>
               let output_name = stem @ ''_'' @ projection_type self @ ''proj.tif'';
                   output_path = output_dir self @ ''/'' @ output_name
               in (self\<lparr>report_data := (report_data self)(stem \<mapsto> rep)\<rparr>,
                   written(output_path \<mapsto> img_proj_tp)))"

text \<open>
  An acquisition is well formed when its shape is \<open>(T, Z, Y, X)\<close> and its nested lists
  have these lengths, as every four-dimensional numpy array does.
\<close>

definition well_formed :: "ndarray4 \<Rightarrow> bool" where
  "well_formed img =
     (case shape img of
        [T, Z, Y, X] \<Rightarrow>
          length (frames img) = T
          \<and> list_all (\<lambda>vol. length vol = Z
              \<and> list_all (\<lambda>p. length p = Y \<and> list_all (\<lambda>row. length row = X) p) vol)
              (frames img)
      | _ \<Rightarrow> False)"

section \<open>An exact score for concrete evaluations\<close>

text \<open>
  Where a concrete score function is needed, \<open>std\<close> is instantiated by
  \<open>n * sum (v * v) - (sum v) * (sum v)\<close> over the \<open>n\<close> intensities \<open>v\<close> of a plane, that is
  \<open>n * n\<close> times the variance. For planes of one size it orders them as the exact
  standard deviation does.
\<close>

definition variance_score :: "u16 list \<Rightarrow> int" where
  "variance_score px =
     int (length px) * sum_list (map (\<lambda>v. uint v * uint v) px) - (sum_list (map uint px)) ^ 2"

section \<open>Properties of the range selection\<close>

lemma z_range_projector_with [simp]: "z_range (projector_with ptype zr) = zr"
  by (simp add: projector_with_def)

lemma projection_type_projector_with [simp]:
  "projection_type (projector_with ptype zr) = ptype"
  by (simp add: projector_with_def)

lemma z_range_main_projector [simp]: "z_range main_projector = 1"
  by (simp add: main_projector_def init_projector_def)

lemma projection_type_main_projector [simp]: "projection_type main_projector = ''max''"
  by (simp add: main_projector_def init_projector_def)

text \<open>
  Claim C1. For a best index inside the stack, \<open>0 \<le> best_z < total_z\<close>, and a
  non-negative half-width, the selected range satisfies \<open>0 \<le> start < stop \<le> total_z\<close>.
\<close>

theorem calculate_projection_range_bounds:
  assumes "0 \<le> best_z" and "best_z < total_z" and "0 \<le> z_range self"
    and "calculate_projection_range self best_z total_z = (start, stop, n_slices)"
  shows "0 \<le> start \<and> start < stop \<and> stop \<le> total_z"
  using assms
  by (auto simp: calculate_projection_range_def Let_def split: if_splits)

theorem calculate_projection_range_bounds_witness:
  "calculate_projection_range (projector_with ''max'' 2) 6 7 = (2, 7, 5)
   \<and> (0::int) \<le> 2 \<and> (2::int) < 7 \<and> (7::int) \<le> 7"
proof -
  have r: "calculate_projection_range (projector_with ''max'' 2) 6 7 = (2, 7, 5)"
    by (simp add: calculate_projection_range_def)
  have "(0::int) \<le> 2 \<and> (2::int) < 7 \<and> (7::int) \<le> 7"
    by (rule calculate_projection_range_bounds [OF _ _ _ r]) simp_all
  with r show ?thesis by simp
qed

text \<open>
  Claim C2, as stated: for \<open>best_z = 0\<close>, \<open>total_z = 5\<close> and half-width 1 the range
  would be \<open>start = 0\<close>, \<open>stop = 2\<close>. The code does not return that pair.
\<close>

theorem range_at_front_not_stop_2:
  "\<not> (fst (calculate_projection_range main_projector 0 5) = 0
      \<and> fst (snd (calculate_projection_range main_projector 0 5)) = 2)"
  by (simp add: calculate_projection_range_def)

text \<open>
  Claim C2, amended: for \<open>best_z = 0\<close>, \<open>total_z = 5\<close> and half-width 1 the start is
  clamped to 0 and the stop is \<open>min(n_slices, total_z) = 3\<close>, so the window keeps its
  three slices.
\<close>

theorem range_at_front:
  "calculate_projection_range main_projector 0 5 = (0, 3, 3)"
  by (simp add: calculate_projection_range_def)

text \<open>
  Claim C3, as stated: for \<open>best_z = 4\<close>, \<open>total_z = 5\<close> and half-width 1 the range
  would be \<open>start = 3\<close>, \<open>stop = 5\<close>. The code does not return that pair.
\<close>

theorem range_at_back_not_start_3:
  "\<not> (fst (calculate_projection_range main_projector 4 5) = 3
      \<and> fst (snd (calculate_projection_range main_projector 4 5)) = 5)"
  by (simp add: calculate_projection_range_def)

text \<open>
  Claim C3, amended: for \<open>best_z = 4\<close>, \<open>total_z = 5\<close> and half-width 1 the stop is
  clamped to 5 and the start is \<open>max(0, total_z - n_slices) = 2\<close>, so the window keeps
  its three slices.
\<close>

theorem range_at_back:
  "calculate_projection_range main_projector 4 5 = (2, 5, 3)"
  by (simp add: calculate_projection_range_def)

text \<open>
  Claim C5. When the best index is at least the half-width away from both ends
  (\<open>z_range \<le> best_z \<le> total_z - z_range - 1\<close>) and the stack holds a whole window, the
  range has exactly \<open>2 * z_range + 1\<close> slices.
\<close>

theorem calculate_projection_range_symmetric:
  assumes "0 \<le> best_z" and "best_z < total_z"
    and "2 * z_range self + 1 \<le> total_z"
    and "z_range self \<le> best_z" and "best_z \<le> total_z - z_range self - 1"
    and "calculate_projection_range self best_z total_z = (start, stop, n_slices)"
  shows "stop - start = 2 * z_range self + 1"
  using assms
  by (auto simp: calculate_projection_range_def Let_def split: if_splits)

theorem calculate_projection_range_symmetric_witness:
  "calculate_projection_range (projector_with ''mean'' 2) 3 7 = (1, 6, 5)
   \<and> (6::int) - 1 = 2 * 2 + 1"
proof -
  have r: "calculate_projection_range (projector_with ''mean'' 2) 3 7 = (1, 6, 5)"
    by (simp add: calculate_projection_range_def)
  have "(6::int) - 1 = 2 * z_range (projector_with ''mean'' 2) + 1"
    by (rule calculate_projection_range_symmetric [OF _ _ _ _ _ r]) simp_all
  with r show ?thesis by simp
qed

text \<open>
  Claim C9. With \<open>0 \<le> best_z < total_z\<close>, the result is given by exactly one of the
  three cases: the start-underflow clamp when \<open>best_z - z_range < 0\<close>; otherwise the
  stop-overflow clamp when \<open>best_z + z_range + 1 > total_z\<close>; otherwise the symmetric
  window. Both conditions cannot hold when the window fits
  (\<open>n_slices \<le> total_z\<close>), and when it does not fit (\<open>n_slices > total_z\<close>) the result is
  \<open>start = 0\<close>, \<open>stop = min(n_slices, total_z)\<close>, the value of the start-underflow clamp.
\<close>

theorem calculate_projection_range_cases:
  fixes self :: image_projector and best_z total_z :: int
  assumes "0 \<le> best_z" and "best_z < total_z"
  shows "let hw = z_range self;
             n_slices = 2 * hw + 1;
             underflow = (best_z - hw < 0);
             overflow = (best_z + hw + 1 > total_z);
             res = calculate_projection_range self best_z total_z
         in (underflow \<longrightarrow> res = (0, min n_slices total_z, n_slices))
          \<and> (\<not> underflow \<and> overflow \<longrightarrow>
               res = (max 0 (total_z - n_slices), total_z, n_slices))
          \<and> (\<not> underflow \<and> \<not> overflow \<longrightarrow>
               res = (best_z - hw, best_z + hw + 1, n_slices))
          \<and> (n_slices \<le> total_z \<longrightarrow> \<not> (underflow \<and> overflow))
          \<and> (n_slices > total_z \<longrightarrow> res = (0, min n_slices total_z, n_slices))"
  using assms
  by (auto simp: calculate_projection_range_def Let_def)

theorem calculate_projection_range_cases_witness:
  "calculate_projection_range main_projector 1 2 = (0, 2, 3)
   \<and> \<not> ((1::int) - 1 < 0) \<and> (1::int) + 1 + 1 > 2"
proof -
  have "calculate_projection_range main_projector 1 2 = (0, 2, 3)"
    using calculate_projection_range_cases [of 1 2 main_projector]
    by (simp add: Let_def)
  then show ?thesis by simp
qed

section \<open>Properties of the focus scoring\<close>

text \<open>
  The scan keeps, for the prefix \<open>pre\<close> already seen, the index of the first greatest
  value of \<open>pre\<close>.
\<close>

lemma argmax_loop_scan:
  fixes pre :: "'s::linorder list"
  assumes "best_i < length pre" and "pre ! best_i = best"
    and "\<forall>j<length pre. pre ! j \<le> best" and "\<forall>j<best_i. pre ! j < best"
  shows "argmax_loop xs (length pre) best_i best < length (pre @ xs)
       \<and> (\<forall>j<length (pre @ xs).
             (pre @ xs) ! j \<le> (pre @ xs) ! argmax_loop xs (length pre) best_i best)
       \<and> (\<forall>j<argmax_loop xs (length pre) best_i best.
             (pre @ xs) ! j < (pre @ xs) ! argmax_loop xs (length pre) best_i best)"
  using assms
proof (induction xs arbitrary: pre best_i best)
  case Nil
  then show ?case by auto
next
  case (Cons x xs)
  let ?pre = "pre @ [x]"
  have len: "Suc (length pre) = length ?pre" by simp
  show ?case
  proof (cases "best < x")
    case True
    have 1: "length pre < length ?pre" by simp
    have 2: "?pre ! length pre = x" by simp
    have 3: "\<forall>j<length ?pre. ?pre ! j \<le> x"
    proof (intro allI impI)
      fix j assume j: "j < length ?pre"
      show "?pre ! j \<le> x"
      proof (cases "j < length pre")
        case True
        then have "pre ! j \<le> best" using Cons.prems by simp
        with \<open>best < x\<close> True show ?thesis by (simp add: nth_append)
      next
        case False
        with j have "j = length pre" by simp
        then show ?thesis by simp
      qed
    qed
    have 4: "\<forall>j<length pre. ?pre ! j < x"
    proof (intro allI impI)
      fix j assume j: "j < length pre"
      then have "pre ! j \<le> best" using Cons.prems by simp
      with \<open>best < x\<close> j show "?pre ! j < x" by (simp add: nth_append)
    qed
    from Cons.IH [OF 1 2 3 4] True show ?thesis
      unfolding len [symmetric] by simp
  next
    case False
    have 1: "best_i < length ?pre" using Cons.prems by simp
    have 2: "?pre ! best_i = best" using Cons.prems by (simp add: nth_append)
    have 3: "\<forall>j<length ?pre. ?pre ! j \<le> best"
    proof (intro allI impI)
      fix j assume j: "j < length ?pre"
      show "?pre ! j \<le> best"
      proof (cases "j < length pre")
        case True
        with Cons.prems show ?thesis by (simp add: nth_append)
      next
        case F: False
        with j have "j = length pre" by simp
        with False show ?thesis by simp
      qed
    qed
    have 4: "\<forall>j<best_i. ?pre ! j < best"
      using Cons.prems by (simp add: nth_append)
    from Cons.IH [OF 1 2 3 4] False show ?thesis
      unfolding len [symmetric] by simp
  qed
qed

lemma argmax_first_max:
  fixes xs :: "'s::linorder list"
  assumes "xs \<noteq> []"
  shows "\<exists>k. argmax xs = Inr k \<and> k < length xs
           \<and> (\<forall>j<length xs. xs ! j \<le> xs ! k) \<and> (\<forall>j<k. xs ! j < xs ! k)"
proof -
  from assms obtain x rest where xs: "xs = x # rest" by (cases xs) auto
  have "argmax_loop rest 1 0 x < length ([x] @ rest)
       \<and> (\<forall>j<length ([x] @ rest). ([x] @ rest) ! j \<le> ([x] @ rest) ! argmax_loop rest 1 0 x)
       \<and> (\<forall>j<argmax_loop rest 1 0 x.
             ([x] @ rest) ! j < ([x] @ rest) ! argmax_loop rest 1 0 x)"
    using argmax_loop_scan [of 0 "[x]" x rest] by simp
  then show ?thesis by (simp add: argmax_def xs)
qed

lemma focused_slice_first_max:
  fixes std :: "u16 list \<Rightarrow> 's::linorder"
  assumes "image_zyx \<noteq> []"
  shows "\<exists>std_devs best_z.
           get_focused_z_slice std image_zyx = Inr (std_devs, best_z)
         \<and> std_devs = map (\<lambda>p. std (concat p)) image_zyx
         \<and> best_z < length image_zyx
         \<and> std_devs ! best_z = Max (set std_devs)
         \<and> (\<forall>j<best_z. std_devs ! j < std_devs ! best_z)"
proof -
  let ?sd = "map (\<lambda>p. std (concat p)) image_zyx"
  have ne: "?sd \<noteq> []" using assms by simp
  from argmax_first_max [OF ne] obtain k where
    k: "argmax ?sd = Inr k" "k < length ?sd"
       "\<forall>j<length ?sd. ?sd ! j \<le> ?sd ! k" "\<forall>j<k. ?sd ! j < ?sd ! k"
    by blast
  have "Max (set ?sd) = ?sd ! k"
  proof (rule Max_eqI)
    show "finite (set ?sd)" by simp
    show "?sd ! k \<in> set ?sd" using k(2) by (rule nth_mem)
    fix y assume "y \<in> set ?sd"
    then obtain j where "j < length ?sd" "?sd ! j = y" by (auto simp: in_set_conv_nth)
    with k(3) show "y \<le> ?sd ! k" by auto
  qed
  with k show ?thesis
    by (simp add: get_focused_z_slice_def Let_def)
qed

text \<open>
  Claim C4. For a volume with at least one plane, \<open>get_focused_z_slice\<close> returns the
  scores of its planes and an index \<open>best_z\<close> inside \<open>[0, Z)\<close> whose score is the greatest
  of all scores, every earlier score being strictly smaller: the first index that
  attains the maximum. The score function is arbitrary.
\<close>

theorem get_focused_z_slice_first_max:
  fixes std :: "u16 list \<Rightarrow> 's::linorder"
  assumes "image_zyx \<noteq> []"
  shows "\<exists>std_devs best_z.
           get_focused_z_slice std image_zyx = Inr (std_devs, best_z)
         \<and> std_devs = map (\<lambda>p. std (concat p)) image_zyx
         \<and> best_z < length image_zyx
         \<and> std_devs ! best_z = Max (set std_devs)
         \<and> (\<forall>j<best_z. std_devs ! j < std_devs ! best_z)"
  using assms by (rule focused_slice_first_max)

theorem get_focused_z_slice_first_max_witness:
  "get_focused_z_slice variance_score [ [ [1, 1] ], [ [0, 2] ], [ [2, 4] ], [ [3, 3] ] ]
     = Inr ([0, 4, 4, 0], 1)
   \<and> [0, 4, 4, 0 :: int] ! 1 = Max (set [0, 4, 4, 0])"
proof -
  have ne: "[ [ [1, 1] ], [ [0, 2] ], [ [2, 4] ], [ [3, 3 :: u16] ] ] \<noteq> []" by simp
  have ev: "get_focused_z_slice variance_score [ [ [1, 1] ], [ [0, 2] ], [ [2, 4] ], [ [3, 3] ] ]
     = Inr ([0, 4, 4, 0], 1)"
    by (simp add: get_focused_z_slice_def argmax_def variance_score_def power2_eq_square)
  from get_focused_z_slice_first_max [OF ne, of variance_score] ev
  show ?thesis by simp
qed

section \<open>Properties of the projection\<close>

lemma unat_sum_list_u16:
  "unat (sum_list (col :: u16 list)) = sum_list (map unat col) mod 65536"
proof (induction col)
  case Nil
  show ?case by simp
next
  case (Cons v vs)
  have "unat (v + sum_list vs) = (unat v + unat (sum_list vs)) mod 65536"
    by (simp add: unat_word_ariths)
  also have "\<dots> = (unat v + sum_list (map unat vs) mod 65536) mod 65536"
    by (simp only: Cons.IH)
  also have "\<dots> = (unat v + sum_list (map unat vs)) mod 65536"
    by (rule mod_add_right_eq)
  finally show ?case by simp
qed

lemma unat_mean_u16:
  "unat (mean_u16 col) = (sum_list (map unat col) mod 65536) div length col"
proof -
  let ?s = "sum_list (map unat col) mod 65536"
  have "?s div length col \<le> ?s" by (rule div_le_dividend)
  also have "?s < 65536" by simp
  finally have "?s div length col < 2 ^ LENGTH(16)" by simp
  then have "unat (of_nat (?s div length col) :: u16) = ?s div length col"
    by (simp only: unat_of_nat mod_less)
  then show ?thesis by (simp add: mean_u16_def unat_sum_list_u16)
qed

lemma reduce_axis0_nth:
  assumes "image_stack = p # ps" and "y < length p" and "x < length (p ! y)"
  shows "reduce_axis0 f image_stack ! y ! x = f (pixel_column image_stack y x)"
  using assms by (simp add: reduce_axis0_def)

lemma length_pixel_column: "length (pixel_column image_stack y x) = length image_stack"
  by (simp add: pixel_column_def)

text \<open>
  Claim C10. Under the rule \<open>mean\<close> the sum over the depth axis is taken in unsigned
  16-bit arithmetic: at a pixel whose intensities add up to more than 65535, the
  projected value is the quotient of the sum modulo \<open>2 ^ 16\<close> by the number of slices,
  and it lies strictly below the arithmetic mean (the value times the number of slices
  is less than the sum).
\<close>

theorem mean_projection_wraps:
  assumes "projection_type self = ''mean''"
    and "image_stack = p # ps" and "y < length p" and "x < length (p ! y)"
    and "65535 < sum_list (map unat (pixel_column image_stack y x))"
  shows "\<exists>img_proj. perform_projection self image_stack = Inr img_proj
         \<and> unat (img_proj ! y ! x)
             = (sum_list (map unat (pixel_column image_stack y x)) mod 2 ^ 16)
                 div length image_stack
         \<and> unat (img_proj ! y ! x) * length image_stack
             < sum_list (map unat (pixel_column image_stack y x))"
proof -
  let ?S = "sum_list (map unat (pixel_column image_stack y x))"
  let ?n = "length image_stack"
  let ?r = "reduce_axis0 mean_u16 image_stack"
  have val: "unat (?r ! y ! x) = (?S mod 65536) div ?n"
    using reduce_axis0_nth [OF assms(2,3,4), of mean_u16]
    by (simp add: unat_mean_u16 length_pixel_column)
  have "((?S mod 65536) div ?n) * ?n \<le> ?S mod 65536" by simp
  also have "?S mod 65536 < ?S" using assms(5) by simp
  finally have "unat (?r ! y ! x) * ?n < ?S" using val by simp
  with val show ?thesis using assms(1) by (simp add: perform_projection_def)
qed

theorem mean_projection_wraps_witness:
  "\<exists>img_proj. perform_projection (projector_with ''mean'' 1)
       [ [ [30000] ], [ [30000] ], [ [30000] ] ] = Inr img_proj
     \<and> unat (img_proj ! 0 ! 0) = 8154
     \<and> unat (img_proj ! 0 ! 0) * 3 < (90000::nat)"
proof -
  have "sum_list (map unat (pixel_column [ [ [30000] ], [ [30000] ], [ [30000] ] ] 0 0)) = 90000"
    by (simp add: pixel_column_def)
  with mean_projection_wraps [of "projector_with ''mean'' 1"
      "[ [ [30000] ], [ [30000] ], [ [30000] ] ]" "[ [30000] ]" "[ [ [30000] ], [ [30000] ] ]" 0 0]
  show ?thesis by auto
qed

text \<open>
  Claim C7. The rule \<open>mean\<close> yields 3 for the two slices 3 and 4, the truncated mean.
  For the two slices 40000 and 40000 it yields 7232, where the truncated mean is 40000:
  the sum 80000 has wrapped around to 14464 before the division.
\<close>

theorem mean_projection_overflow_example:
  "perform_projection (projector_with ''mean'' 1) [ [ [3] ], [ [4] ] ] = Inr [ [3] ]
   \<and> perform_projection (projector_with ''mean'' 1) [ [ [40000] ], [ [40000] ] ] = Inr [ [7232] ]
   \<and> (40000 + 40000) div 2 = (40000::nat)"
  by (simp add: perform_projection_def reduce_axis0_def pixel_column_def mean_u16_def
      numeral_2_eq_2 [symmetric])

section \<open>Properties of the processing of one file\<close>

lemma n_slices_requested:
  "snd (snd (calculate_projection_range self best_z total_z)) = 2 * z_range self + 1"
  by (simp add: calculate_projection_range_def Let_def)

lemma range_inside:
  assumes "0 \<le> best_z" and "best_z < total_z" and "0 \<le> z_range self"
  shows "0 \<le> fst (calculate_projection_range self best_z total_z)
       \<and> fst (calculate_projection_range self best_z total_z)
           < fst (snd (calculate_projection_range self best_z total_z))
       \<and> fst (snd (calculate_projection_range self best_z total_z)) \<le> total_z"
  using assms by (simp add: calculate_projection_range_def Let_def)

lemma calculate_projection_range_processed_count [simp]:
  "calculate_projection_range (self\<lparr>processed_count := c\<rparr>) = calculate_projection_range self"
  by (rule ext)+ (simp add: calculate_projection_range_def)

lemma range_first_py_range:
  "range_first (py_range start stop) = Inr first \<Longrightarrow> first = start \<and> start < stop"
  by (cases "start < stop") (simp_all add: range_first_def py_range_def upto_rec1)

lemma last_upto_int: "i \<le> j \<Longrightarrow> last [i..j] = j"
  by (subst upto_rec2) simp_all

lemma range_last_py_range:
  "range_last (py_range start stop) = Inr lst \<Longrightarrow> lst + 1 = stop"
  by (cases "start < stop")
    (auto simp: range_last_def py_range_def last_upto_int split: if_splits)

lemma range_first_nonempty: "start < stop \<Longrightarrow> range_first (py_range start stop) = Inr start"
  by (simp add: range_first_def py_range_def upto_rec1)

lemma range_last_nonempty: "start < stop \<Longrightarrow> range_last (py_range start stop) = Inr (stop - 1)"
  by (simp add: range_last_def py_range_def last_upto_int)

lemma take_many_inside:
  assumes "\<forall>i\<in>set is. 0 \<le> i \<and> i < int (length xs)"
  shows "take_many xs is = Inr (map (\<lambda>i. xs ! nat i) is)"
  using assms by (induction "is") (simp_all add: take_one_def)

lemma set_py_range: "set (py_range start stop) = {i. start \<le> i \<and> i < stop}"
  by (auto simp: py_range_def)

lemma perform_projection_supported:
  assumes "projection_type self = ''mean'' \<or> projection_type self = ''max''"
    and "image_stack \<noteq> []"
  shows "\<exists>img_proj. perform_projection self image_stack = Inr img_proj"
  using assms by (auto simp: perform_projection_def)

lemma perform_projection_unsupported:
  assumes "projection_type self \<noteq> ''mean''" and "projection_type self \<noteq> ''max''"
  shows "perform_projection self image_stack
           = Inl (ValueError (''Unsupported projection type: '' @ projection_type self))"
  using assms by (simp add: perform_projection_def)


lemma process_timepoint_Inr:
  assumes "process_timepoint std self img t (img_proj_tp, rep) = Inr (img_proj_tp', rep')"
  defines "best_z \<equiv> snd (projr (get_focused_z_slice std (projr (take_one (frames img) (int t)))))"
  defines "rng \<equiv> calculate_projection_range self (int best_z) (int (shape img ! 1))"
  shows "length img_proj_tp' = Suc (length img_proj_tp)
       \<and> Timepoint rep' = Timepoint rep @ [int t + 1]
       \<and> Numb_projected_z rep' = Numb_projected_z rep @ [2 * z_range self + 1]
       \<and> Type_of_proj rep' = Type_of_proj rep @ [projection_type self]
       \<and> Start_z rep' = Start_z rep @ [fst rng + 1]
       \<and> Stop_z rep' = Stop_z rep @ [fst (snd rng)]"
proof -
  from assms(1) obtain img_tp where tk: "take_one (frames img) (int t) = Inr img_tp"
    by (auto simp: process_timepoint_def and_then_def split: sum.splits)
  from assms(1) tk obtain sd bz where gf: "get_focused_z_slice std img_tp = Inr (sd, bz)"
    by (auto simp: process_timepoint_def and_then_def Let_def split: sum.splits)
  have bz: "best_z = bz" by (simp add: best_z_def tk gf)
  obtain s e n where cr: "calculate_projection_range self (int bz) (int (shape img ! 1)) = (s, e, n)"
    by (cases "calculate_projection_range self (int bz) (int (shape img ! 1))") auto
  have n: "n = 2 * z_range self + 1"
    using n_slices_requested [of self "int bz" "int (shape img ! 1)"] cr by simp
  from assms(1) tk gf cr obtain first where rf: "range_first (py_range s e) = Inr first"
    by (auto simp: process_timepoint_def and_then_def Let_def split: sum.splits)
  from assms(1) tk gf cr rf obtain lst where rl: "range_last (py_range s e) = Inr lst"
    by (auto simp: process_timepoint_def and_then_def Let_def split: sum.splits)
  have first: "first = s" using range_first_py_range [OF rf] by simp
  have lst: "lst + 1 = e" using range_last_py_range [OF rl] by simp
  have rng: "rng = (s, e, n)" using cr by (simp add: rng_def bz)
  from assms(1) cr rf rl lst show ?thesis
    by (auto simp: process_timepoint_def and_then_def Let_def tk gf first rng n
        split: sum.splits)
qed

lemma timepoint_loop_Inr:
  assumes "timepoint_loop std self img ts (img_proj_tp, rep) = Inr (img_proj_tp', rep')"
  defines "rng \<equiv> \<lambda>t. calculate_projection_range self
      (int (snd (projr (get_focused_z_slice std (projr (take_one (frames img) (int t)))))))
      (int (shape img ! 1))"
  shows "length img_proj_tp' = length img_proj_tp + length ts
       \<and> Timepoint rep' = Timepoint rep @ map (\<lambda>t. int t + 1) ts
       \<and> Numb_projected_z rep' = Numb_projected_z rep @ map (\<lambda>t. 2 * z_range self + 1) ts
       \<and> Type_of_proj rep' = Type_of_proj rep @ map (\<lambda>t. projection_type self) ts
       \<and> Start_z rep' = Start_z rep @ map (\<lambda>t. fst (rng t) + 1) ts
       \<and> Stop_z rep' = Stop_z rep @ map (\<lambda>t. fst (snd (rng t))) ts"
  using assms(1)
proof (induction ts arbitrary: img_proj_tp rep)
  case Nil
  then show ?case by simp
next
  case (Cons t ts)
  from Cons.prems obtain stk1 rep1 where
    step: "process_timepoint std self img t (img_proj_tp, rep) = Inr (stk1, rep1)"
    and rest: "timepoint_loop std self img ts (stk1, rep1) = Inr (img_proj_tp', rep')"
    by (auto split: sum.splits)
  note s = process_timepoint_Inr [OF step]
  note r = Cons.IH [OF rest]
  show ?case using s r by (simp add: rng_def)
qed

lemma well_formed_shape:
  assumes "well_formed img"
  obtains T Z Y X where "shape img = [T, Z, Y, X]" and "length (frames img) = T"
    and "\<forall>vol\<in>set (frames img). length vol = Z"
  using assms
  by (auto simp: well_formed_def list_all_iff split: list.splits)

lemma process_timepoint_reaches_projection:
  fixes std :: "u16 list \<Rightarrow> 's::linorder"
  assumes wf: "well_formed img" and Z: "0 < shape img ! 1" and zr: "0 \<le> z_range self"
    and t: "t < shape img ! 0"
  shows "\<exists>img_z_stack rep'. img_z_stack \<noteq> []
           \<and> process_timepoint std self img t (img_proj_tp, rep)
               = and_then (perform_projection self img_z_stack)
                   (\<lambda>img_proj. Inr (img_proj_tp @ [img_proj], rep'))"
proof -
  from wf obtain T Z Y X where sh: "shape img = [T, Z, Y, X]"
    and len: "length (frames img) = T" and vols: "\<forall>vol\<in>set (frames img). length vol = Z"
    by (rule well_formed_shape)
  let ?vol = "frames img ! t"
  have tT: "t < T" using t sh by simp
  have tk: "take_one (frames img) (int t) = Inr ?vol"
    using tT len by (simp add: take_one_def)
  have lv: "length ?vol = Z" using vols tT len by simp
  have Zpos: "0 < Z" using Z sh by simp
  then have "?vol \<noteq> []" using lv by auto
  from focused_slice_first_max [OF this, of std] obtain sd bz where
    gf: "get_focused_z_slice std ?vol = Inr (sd, bz)" and bz: "bz < Z"
    using lv by auto
  obtain s e n where cr: "calculate_projection_range self (int bz) (int Z) = (s, e, n)"
    by (cases "calculate_projection_range self (int bz) (int Z)") auto
  let ?stk = "map (\<lambda>i. ?vol ! nat i) (py_range s e)"
  have "0 \<le> int bz" and "int bz < int Z" using bz by simp_all
  from range_inside [OF this zr] cr have se: "0 \<le> s" "s < e" "e \<le> int Z" by simp_all
  have "\<forall>i\<in>set (py_range s e). 0 \<le> i \<and> i < int (length ?vol)"
    using se lv by (auto simp: set_py_range)
  then have tm: "take_many ?vol (py_range s e) = Inr ?stk"
    using take_many_inside [of "py_range s e" ?vol] by simp
  have "py_range s e \<noteq> []" using se(2) by (simp add: py_range_def)
  then have ne: "?stk \<noteq> []" by simp
  have rf: "range_first (py_range s e) = Inr s" using se(2) by (rule range_first_nonempty)
  have rl: "range_last (py_range s e) = Inr (e - 1)" using se(2) by (rule range_last_nonempty)
  have Z1: "shape img ! 1 = Z" by (simp add: sh)
  have "process_timepoint std self img t (img_proj_tp, rep)
          = and_then (perform_projection self ?stk)
              (\<lambda>img_proj. Inr (img_proj_tp @ [img_proj],
                 rep\<lparr>Timepoint := Timepoint rep @ [int t + 1],
                     Type_of_proj := Type_of_proj rep @ [projection_type self],
                     Numb_projected_z := Numb_projected_z rep @ [n],
                     Start_z := Start_z rep @ [s + 1],
                     Stop_z := Stop_z rep @ [e]\<rparr>))"
    unfolding process_timepoint_def
    by (simp add: and_then_def Let_def tk gf Z1 cr rf rl tm del: One_nat_def
        split: sum.splits)
  with ne show ?thesis by blast
qed

lemma process_timepoint_succeeds:
  fixes std :: "u16 list \<Rightarrow> 's::linorder"
  assumes wf: "well_formed img" and Z: "0 < shape img ! 1" and zr: "0 \<le> z_range self"
    and pt: "projection_type self = ''mean'' \<or> projection_type self = ''max''"
    and t: "t < shape img ! 0"
  shows "\<exists>st'. process_timepoint std self img t st = Inr st'"
proof -
  obtain img_proj_tp rep where st: "st = (img_proj_tp, rep)" by (cases st)
  from process_timepoint_reaches_projection [OF wf Z zr t, of std img_proj_tp rep]
  obtain img_z_stack rep' where ne: "img_z_stack \<noteq> []"
    and eq: "process_timepoint std self img t (img_proj_tp, rep)
               = and_then (perform_projection self img_z_stack)
                   (\<lambda>img_proj. Inr (img_proj_tp @ [img_proj], rep'))"
    by blast
  have "\<exists>img_proj. perform_projection self img_z_stack = Inr img_proj"
    using pt ne by (rule perform_projection_supported)
  then obtain img_proj where "perform_projection self img_z_stack = Inr img_proj" ..
  then show ?thesis by (simp add: st eq and_then_def)
qed

lemma timepoint_loop_succeeds:
  fixes std :: "u16 list \<Rightarrow> 's::linorder"
  assumes "well_formed img" and "0 < shape img ! 1" and "0 \<le> z_range self"
    and "projection_type self = ''mean'' \<or> projection_type self = ''max''"
    and "\<forall>t\<in>set ts. t < shape img ! 0"
  shows "\<exists>st'. timepoint_loop std self img ts st = Inr st'"
  using assms(5)
proof (induction ts arbitrary: st)
  case Nil
  show ?case by simp
next
  case (Cons t ts)
  from Cons.prems have "t < shape img ! 0" by simp
  from process_timepoint_succeeds [OF assms(1-4) this, of std st] obtain st1 where
    "process_timepoint std self img t st = Inr st1" by blast
  moreover from Cons.IH [of st1] Cons.prems obtain st' where
    "timepoint_loop std self img ts st1 = Inr st'" by auto
  ultimately show ?case by simp
qed

lemma process_timepoint_fails:
  assumes "projection_type self \<noteq> ''mean''" and "projection_type self \<noteq> ''max''"
  shows "\<exists>e. process_timepoint std self img t st = Inl e"
proof -
  obtain img_proj_tp rep where st: "st = (img_proj_tp, rep)" by (cases st)
  show ?thesis
    by (simp add: st process_timepoint_def and_then_def Let_def
        perform_projection_unsupported [OF assms] split: sum.splits prod.splits)
qed

text \<open>
  Claim C6. For a well-formed acquisition with at least one plane per volume, a
  non-negative \<open>z_range\<close> and a supported projection type, \<open>process_tiff_file\<close> stores
  a report for the file, and its entry for each timepoint \<open>t\<close> is
  \<open>{t + 1, 2 * z_range + 1, projection_type, start + 1, stop}\<close>, where
  \<open>(start, stop, _)\<close> is the range selected around the best-focused slice of that
  timepoint: the start is shifted by one, the stop is the exclusive stop unchanged, and
  the number of slices is the requested one.
\<close>

theorem audit_record_entry:
  fixes std :: "u16 list \<Rightarrow> 's::linorder"
  assumes wf: "well_formed img" and sh: "shape img = [T, Z, Y, X]" and Z: "0 < Z"
    and zr: "0 \<le> z_range self"
    and pt: "projection_type self = ''mean'' \<or> projection_type self = ''max''"
    and t: "t < T"
  shows "\<exists>rep std_devs best_z start stop n_slices.
           report_data (fst (process_tiff_file std self stem img written)) stem = Some rep
         \<and> get_focused_z_slice std (frames img ! t) = Inr (std_devs, best_z)
         \<and> calculate_projection_range self (int best_z) (int Z) = (start, stop, n_slices)
         \<and> length (Timepoint rep) = T
         \<and> Timepoint rep ! t = int t + 1
         \<and> Numb_projected_z rep ! t = 2 * z_range self + 1
         \<and> Type_of_proj rep ! t = projection_type self
         \<and> Start_z rep ! t = start + 1
         \<and> Stop_z rep ! t = stop"
proof -
  let ?self = "self\<lparr>processed_count := processed_count self + 1\<rparr>"
  let ?init = "([replicate (shape img ! 2) (replicate (shape img ! 3) 0)], empty_report)"
  have Z1: "0 < shape img ! 1" using Z sh by simp
  have zr': "0 \<le> z_range ?self" using zr by simp
  have pt': "projection_type ?self = ''mean'' \<or> projection_type ?self = ''max''"
    using pt by simp
  have ts: "\<forall>t\<in>set [0..<shape img ! 0]. t < shape img ! 0" by simp
  from timepoint_loop_succeeds [OF wf Z1 zr' pt' ts, of std ?init]
  obtain stk rep where loop:
    "timepoint_loop std ?self img [0..<shape img ! 0] ?init = Inr (stk, rep)"
    by (metis surj_pair)
  note cols = timepoint_loop_Inr [OF loop]
  have run: "process_timepoints std ?self img = Inr (tl stk, rep)"
    using loop by (simp add: process_timepoints_def)
  have rd: "report_data (fst (process_tiff_file std self stem img written)) stem = Some rep"
    using run by (simp add: process_tiff_file_def sh Let_def)
  from wf sh have len: "length (frames img) = T"
    and vols: "\<forall>vol\<in>set (frames img). length vol = Z"
    by (auto elim!: well_formed_shape)
  let ?vol = "frames img ! t"
  have tk: "take_one (frames img) (int t) = Inr ?vol"
    using t len by (simp add: take_one_def)
  have "?vol \<in> set (frames img)" using t len by simp
  with vols have "length ?vol = Z" by blast
  with Z have "?vol \<noteq> []" by auto
  from focused_slice_first_max [OF this, of std] obtain sd bz where
    gf: "get_focused_z_slice std ?vol = Inr (sd, bz)" by blast
  obtain s e n where cr: "calculate_projection_range self (int bz) (int Z) = (s, e, n)"
    by (cases "calculate_projection_range self (int bz) (int Z)") auto
  have T0: "shape img ! 0 = T" and Z1': "shape img ! 1 = Z" by (simp_all add: sh)
  have "length (Timepoint rep) = T"
    and "Timepoint rep ! t = int t + 1"
    and "Numb_projected_z rep ! t = 2 * z_range self + 1"
    and "Type_of_proj rep ! t = projection_type self"
    and "Start_z rep ! t = s + 1"
    and "Stop_z rep ! t = e"
    using cols t cr by (simp_all add: empty_report_def T0 Z1' tk gf del: One_nat_def)
  with rd gf cr show ?thesis by blast
qed

theorem audit_record_entry_witness:
  "\<exists>rep. report_data
            (fst (process_tiff_file variance_score (projector_with ''mean'' 1) ''cells''
               \<lparr>shape = [1, 2, 1, 2], frames = [ [ [ [5, 5] ], [ [1, 9] ] ] ]\<rparr> Map.empty)) ''cells''
          = Some rep
        \<and> Timepoint rep ! 0 = 1 \<and> Numb_projected_z rep ! 0 = 3
        \<and> Type_of_proj rep ! 0 = ''mean'' \<and> Start_z rep ! 0 = 1 \<and> Stop_z rep ! 0 = 2"
proof -
  let ?img = "\<lparr>shape = [1, 2, 1, 2], frames = [ [ [ [5, 5] ], [ [1, 9 :: u16] ] ] ]\<rparr>"
  let ?self = "projector_with ''mean'' 1"
  have wf: "well_formed ?img" by (simp add: well_formed_def)
  have sh: "shape ?img = [1, 2, 1, 2]" by simp
  have gf: "get_focused_z_slice variance_score (frames ?img ! 0) = Inr ([0, 64], 1)"
    by (simp add: get_focused_z_slice_def argmax_def variance_score_def power2_eq_square)
  have cr: "calculate_projection_range ?self (int 1) (int 2) = (0, 2, 3)"
    by (simp add: calculate_projection_range_def)
  from audit_record_entry [OF wf sh, of ?self 0 variance_score "''cells''" Map.empty]
  obtain rep sd bz s e n where
    "report_data (fst (process_tiff_file variance_score ?self ''cells'' ?img Map.empty)) ''cells''
       = Some rep"
    "get_focused_z_slice variance_score (frames ?img ! 0) = Inr (sd, bz)"
    "calculate_projection_range ?self (int bz) (int 2) = (s, e, n)"
    "Timepoint rep ! 0 = int 0 + 1" "Numb_projected_z rep ! 0 = 2 * z_range ?self + 1"
    "Type_of_proj rep ! 0 = projection_type ?self"
    "Start_z rep ! 0 = s + 1" "Stop_z rep ! 0 = e"
    by auto
  with gf cr show ?thesis by auto
qed

text \<open>
  Claim C8. With a projection type other than \<open>mean\<close> and \<open>max\<close>,
  \<open>perform_projection\<close> fails with the \<open>ValueError\<close> for an unsupported type whatever
  the stack is. Processing a file with at least one timepoint then leaves the report
  data and the written output files as they were; for a well-formed acquisition the
  exception that ends the processing is this \<open>ValueError\<close>.
\<close>

theorem unsupported_projection_type:
  fixes std :: "u16 list \<Rightarrow> 's::linorder"
  assumes "projection_type self \<noteq> ''mean''" and "projection_type self \<noteq> ''max''"
  shows "perform_projection self image_stack
           = Inl (ValueError (''Unsupported projection type: '' @ projection_type self))
       \<and> (3 < length (shape img) \<and> 0 < shape img ! 0 \<longrightarrow>
            report_data (fst (process_tiff_file std self stem img written)) = report_data self
          \<and> snd (process_tiff_file std self stem img written) = written)
       \<and> (well_formed img \<and> 0 < shape img ! 0 \<and> 0 < shape img ! 1 \<and> 0 \<le> z_range self \<longrightarrow>
            process_timepoints std self img
              = Inl (ValueError (''Unsupported projection type: '' @ projection_type self)))"
proof (intro conjI impI)
  show "perform_projection self image_stack
          = Inl (ValueError (''Unsupported projection type: '' @ projection_type self))"
    using assms by (rule perform_projection_unsupported)
next
  assume a: "3 < length (shape img) \<and> 0 < shape img ! 0"
  let ?self = "self\<lparr>processed_count := processed_count self + 1\<rparr>"
  let ?init = "([replicate (shape img ! 2) (replicate (shape img ! 3) 0)], empty_report)"
  have pt: "projection_type ?self \<noteq> ''mean''" "projection_type ?self \<noteq> ''max''"
    using assms by simp_all
  from process_timepoint_fails [OF pt, of std img 0 ?init] obtain e where
    "process_timepoint std ?self img 0 ?init = Inl e" ..
  moreover have "[0..<shape img ! 0] = 0 # [1..<shape img ! 0]"
    using a by (simp add: upt_conv_Cons)
  ultimately have run: "process_timepoints std ?self img = Inl e"
    by (simp add: process_timepoints_def)
  show "report_data (fst (process_tiff_file std self stem img written)) = report_data self"
    using a run by (simp add: process_tiff_file_def Let_def)
  show "snd (process_tiff_file std self stem img written) = written"
    using a run by (simp add: process_tiff_file_def Let_def)
next
  assume a: "well_formed img \<and> 0 < shape img ! 0 \<and> 0 < shape img ! 1 \<and> 0 \<le> z_range self"
  let ?init = "[replicate (shape img ! 2) (replicate (shape img ! 3) 0)]"
  from a have wf: "well_formed img" and T: "0 < shape img ! 0" and Z: "0 < shape img ! 1"
    and zr: "0 \<le> z_range self" by simp_all
  from process_timepoint_reaches_projection [OF wf Z zr T, of std ?init empty_report]
  obtain img_z_stack rep' where
    "process_timepoint std self img 0 (?init, empty_report)
       = and_then (perform_projection self img_z_stack)
           (\<lambda>img_proj. Inr (?init @ [img_proj], rep'))"
    by blast
  then have "process_timepoint std self img 0 (?init, empty_report)
       = Inl (ValueError (''Unsupported projection type: '' @ projection_type self))"
    by (simp add: perform_projection_unsupported [OF assms] and_then_def)
  moreover have "[0..<shape img ! 0] = 0 # [1..<shape img ! 0]"
    using T by (simp add: upt_conv_Cons)
  ultimately show "process_timepoints std self img
      = Inl (ValueError (''Unsupported projection type: '' @ projection_type self))"
    by (simp add: process_timepoints_def)
qed

theorem unsupported_projection_type_witness:
  "perform_projection (projector_with ''median'' 1) [ [ [3] ], [ [4] ] ]
     = Inl (ValueError ''Unsupported projection type: median'')
   \<and> report_data
       (fst (process_tiff_file variance_score (projector_with ''median'' 1) ''cells''
          \<lparr>shape = [1, 2, 1, 2], frames = [ [ [ [5, 5] ], [ [1, 9] ] ] ]\<rparr> [''old.tif'' \<mapsto> [ [ [7] ] ] ]))
       = report_data (projector_with ''median'' 1)
   \<and> snd (process_tiff_file variance_score (projector_with ''median'' 1) ''cells''
          \<lparr>shape = [1, 2, 1, 2], frames = [ [ [ [5, 5] ], [ [1, 9] ] ] ]\<rparr> [''old.tif'' \<mapsto> [ [ [7] ] ] ])
       = [''old.tif'' \<mapsto> [ [ [7] ] ] ]"
  using unsupported_projection_type [of "projector_with ''median'' 1" "[ [ [3] ], [ [4] ] ]"
      "\<lparr>shape = [1, 2, 1, 2], frames = [ [ [ [5, 5] ], [ [1, 9] ] ] ]\<rparr>" variance_score "''cells''"
      "[''old.tif'' \<mapsto> [ [ [7] ] ] ]"]
  by simp

end
